theory Spec2Isabelle
  imports Main
begin

section \<open>Data model\<close>

text \<open>
  The notebook \<^verbatim>\<open>Performance, HPC and IPython Parallel\<close> defines one function,
  \<^verbatim>\<open>get_num_matches\<close>, and two cells that submit it to a load-balanced view and print
  the results. Everything else is a call into OpenCV (\<^verbatim>\<open>cv2\<close>) or ipyparallel.

  A descriptor is one row of the numeric array that SIFT returns; a descriptor set is
  the list of its rows. OpenCV's SIFT stores integer values in its floating-point rows,
  so the entries are integers here.
\<close>

type_synonym descriptor = "int list"
type_synonym descriptors = "descriptor list"

text \<open>A Python value that is either a descriptor array or \<^verbatim>\<open>None\<close>.\<close>

type_synonym pyarray = "descriptors option"

text \<open>A grey-scale frame: its \<^verbatim>\<open>shape\<close> is the pair (height, width).\<close>

record image =
  height :: nat
  width :: nat
  pixels :: "nat list"

definition shape :: "image \<Rightarrow> nat \<times> nat" where
  "shape frame = (height frame, width frame)"

text \<open>A \<^verbatim>\<open>DMatch\<close>: the pair (queryIdx, trainIdx).\<close>

type_synonym dmatch = "nat \<times> nat"

text \<open>
  Exceptions. \<open>Library s\<close> is an exception raised inside an external library, carried
  as the library raised it. \<open>AttributeError\<close> is the exception the interpreter raises
  when the function's own expression \<^verbatim>\<open>frame.shape\<close> is evaluated on \<^verbatim>\<open>None\<close>.
\<close>

datatype exn = Library string | AttributeError

text \<open>
  The operations of \<^verbatim>\<open>cv2\<close> that the function calls. They are not part of the
  repository, so they are parameters:
  \<^item> \<open>imread fname content\<close> is \<^verbatim>\<open>cv2.imread(fname, cv2.IMREAD_GRAYSCALE)\<close> where
    \<open>content\<close> is what the file system holds at \<open>fname\<close> (\<open>None\<close>: no readable file);
    it raises, or returns a frame, or returns \<^verbatim>\<open>None\<close>;
  \<^item> \<open>detectAndCompute frame\<close> is the second component of
    \<^verbatim>\<open>cv2.SIFT(nfeatures=5000).detectAndCompute(frame, mask=None)\<close>;
  \<^item> \<open>bf_match D_src D\<close> is
    \<^verbatim>\<open>cv2.BFMatcher(cv2.NORM_L2, crossCheck=True).match(D_src, D)\<close>.
  Each one reads its arguments and returns a new value; an exception is \<open>Inl\<close> of its
  text. The module is taken to be importable and to offer the names the function uses.
  A constructor (\<^verbatim>\<open>cv2.SIFT\<close>, \<^verbatim>\<open>cv2.BFMatcher\<close>) runs right before the one method
  call made on its object, with no statement of the function in between, so an
  exception of the constructor is an exception of that operation.
\<close>

record cv2 =
  imread :: "string \<Rightarrow> string option \<Rightarrow> string + image option"
  detectAndCompute :: "image \<Rightarrow> string + pyarray"
  bf_match :: "pyarray \<Rightarrow> pyarray \<Rightarrow> string + dmatch list"

text \<open>
  Array objects are held by reference. \<open>Caller r\<close> is an object that exists when the
  function is called; \<open>Local_D\<close> is the object that \<^verbatim>\<open>detectAndCompute\<close> creates during
  the call, distinct from every object of the caller.
\<close>

datatype objid = Caller nat | Local_D

text \<open>
  The world a call runs in: the file system (path to file content), the paths read so
  far, the shapes printed so far on standard output, and the array objects.
\<close>

record world =
  files :: "string \<rightharpoonup> string"
  opened :: "string list"
  stdout :: "(nat \<times> nat) list"
  arrays :: "objid \<Rightarrow> pyarray"

section \<open>The descriptor-and-match function\<close>

text \<open>
  \<^verbatim>\<open>
  @lview.parallel()
  def get_num_matches(arg):
      fname, D_src = arg
      import cv2
      frame = cv2.imread(fname, cv2.IMREAD_GRAYSCALE)
      print frame.shape
      sift = cv2.SIFT(nfeatures=5000)
      _, D = sift.detectAndCompute(frame, mask=None)
      matcher = cv2.BFMatcher(cv2.NORM_L2, crossCheck=True)
      matches = matcher.match(D_src, D)
      return fname, len(matches)
  \<close>
  The argument is the pair of the path and the reference to the caller's descriptor
  array. The result is the returned pair or the exception raised, with the world after
  the call.
\<close>

definition get_num_matches ::
  "cv2 \<Rightarrow> string \<times> nat \<Rightarrow> world \<Rightarrow> (exn + string \<times> int) \<times> world" where
  "get_num_matches cv arg w0 =
     (case arg of (fname, D_src) \<Rightarrow>
        (let w1 = w0\<lparr>opened := opened w0 @ [fname]\<rparr> in
         (case imread cv fname (files w0 fname) of
            Inl e \<Rightarrow> (Inl (Library e), w1)
          | Inr None \<Rightarrow> (Inl AttributeError, w1)
          | Inr (Some frame) \<Rightarrow>
              (let w2 = w1\<lparr>stdout := stdout w1 @ [shape frame]\<rparr> in
               (case detectAndCompute cv frame of
                  Inl e \<Rightarrow> (Inl (Library e), w2)
                | Inr D \<Rightarrow>
                    (let w3 = w2\<lparr>arrays := (arrays w2)(Local_D := D)\<rparr> in
                     (case bf_match cv (arrays w3 (Caller D_src)) (arrays w3 Local_D) of
                        Inl e \<Rightarrow> (Inl (Library e), w3)
                      | Inr matches \<Rightarrow> (Inr (fname, int (length matches)), w3))))))))"

section \<open>The parallel submission\<close>

text \<open>
  \<^verbatim>\<open>
  fnames = !ls data/templeRing/temple*.png

  args = [(fname, D_1) for fname in fnames]
  async_res = get_num_matches.map(args)
  \<close>
  and, in a later cell,
  \<^verbatim>\<open>
  for f, n in async_res:
      print f, n
  \<close>
  \<^verbatim>\<open>get_num_matches.map\<close> belongs to ipyparallel: it is a parameter. It raises, or
  returns a result object; iterating that object yields, for each item, a result pair or
  an exception. The notebook's state is the list of map calls it has made and the lines
  it has printed.
\<close>

type_synonym async_result = "(string + string \<times> int) list"
type_synonym parallel_map = "(string \<times> nat) list \<Rightarrow> string + async_result"

record notebook =
  map_calls :: "(string \<times> nat) list list"
  printed :: "(string \<times> int) list"

definition args :: "string list \<Rightarrow> nat \<Rightarrow> (string \<times> nat) list" where
  "args fnames D_1 = map (\<lambda>fname. (fname, D_1)) fnames"

definition submit ::
  "parallel_map \<Rightarrow> string list \<Rightarrow> nat \<Rightarrow> notebook \<Rightarrow> (exn + async_result) \<times> notebook" where
  "submit get_num_matches_map fnames D_1 nb =
     (let a = args fnames D_1;
          nb' = nb\<lparr>map_calls := map_calls nb @ [a]\<rparr>
      in (case get_num_matches_map a of
            Inl e \<Rightarrow> (Inl (Library e), nb')
          | Inr async_res \<Rightarrow> (Inr async_res, nb')))"

fun collect_results :: "async_result \<Rightarrow> notebook \<Rightarrow> (exn + unit) \<times> notebook" where
  "collect_results [] nb = (Inr (), nb)"
| "collect_results (Inl e # rest) nb = (Inl (Library e), nb)"
| "collect_results (Inr (f, n) # rest) nb =
     collect_results rest (nb\<lparr>printed := printed nb @ [(f, n)]\<rparr>)"

section \<open>The matcher\<close>

text \<open>
  \<^verbatim>\<open>cv2.BFMatcher\<close> is OpenCV's; the notebook only calls it. The definitions of this
  section model the call \<^verbatim>\<open>cv2.BFMatcher(cv2.NORM_L2, crossCheck=True).match(D_src, D)\<close>
  from what the specification says of it: brute-force matching under a symmetric L2
  distance, where a correspondence is accepted by the cross-check criterion, on arrays
  whose rows have one common width.
\<close>

text \<open>
  Modelled from the spec: the L2 distance of the external matcher, which is missing
  from the sources. It is the squared Euclidean distance: the square root is monotone,
  so the nearest row under the L2 norm is the nearest row under its square, and the
  value stays an integer.
\<close>

definition norm_l2_sq :: "descriptor \<Rightarrow> descriptor \<Rightarrow> int" where
  "norm_l2_sq a b = sum_list (map (\<lambda>(x, y). (x - y) * (x - y)) (zip a b))"

text \<open>
  Modelled from the spec: the brute-force search of the external matcher, which is
  missing from the sources. \<open>argmin ds\<close> is the position of the least distance in
  \<open>ds\<close>, the first one when several are least, and \<open>None\<close> on the empty list. The
  distances are of any linearly ordered type.
\<close>

fun argmin :: "'a::linorder list \<Rightarrow> nat option" where
  "argmin [] = None"
| "argmin (x # xs) =
     (case argmin xs of
        None \<Rightarrow> Some 0
      | Some j \<Rightarrow> if x \<le> xs ! j then Some 0 else Some (Suc j))"

text \<open>
  Modelled from the spec: the nearest neighbour of a descriptor among the rows of an
  array, by brute force, as the external matcher (missing from the sources) finds it.
\<close>

definition nearest :: "descriptor \<Rightarrow> descriptors \<Rightarrow> nat option" where
  "nearest d T = argmin (map (norm_l2_sq d) T)"

text \<open>
  Modelled from the spec: the cross-check of the external matcher, which is missing
  from the sources. Going through the query rows in order, row \<open>i\<close> is matched with its
  nearest train row \<open>j\<close> when row \<open>i\<close> is in turn the nearest query row of \<open>j\<close>; at most
  one match is returned for a query row.
\<close>

definition cross_check :: "descriptors \<Rightarrow> descriptors \<Rightarrow> dmatch list" where
  "cross_check Q T =
     List.map_filter
       (\<lambda>i. case nearest (Q ! i) T of
               None \<Rightarrow> None
             | Some j \<Rightarrow> if nearest (T ! j) Q = Some i then Some (i, j) else None)
       [0..<length Q]"

text \<open>
  Modelled from the spec: the array-dimension compatibility that the external matching
  routine (missing from the sources) requires: all rows have one width.
\<close>

definition same_width :: "descriptors \<Rightarrow> bool" where
  "same_width rows = (\<forall>r \<in> set rows. \<forall>s \<in> set rows. length r = length s)"

text \<open>
  Modelled from the spec: the call
  \<^verbatim>\<open>cv2.BFMatcher(cv2.NORM_L2, crossCheck=True).match(D_src, D)\<close> of the external
  library, which is missing from the sources. \<open>D_src\<close> is the query array and \<open>D\<close> the
  train array. The call raises when an argument is not an array or the rows do not have
  one common width, and returns the cross-checked matches otherwise.
\<close>

definition BFMatcher_match :: "pyarray \<Rightarrow> pyarray \<Rightarrow> string + dmatch list" where
  "BFMatcher_match D_src D =
     (case (D_src, D) of
        (Some Q, Some T) \<Rightarrow>
          if same_width (Q @ T) then Inr (cross_check Q T) else Inl ''cv2.error''
      | _ \<Rightarrow> Inl ''cv2.error'')"

text \<open>
  Modelled from the spec: the row that the brute-force search of the external matcher
  (missing from the sources) returns for \<open>d\<close> under the exact distance: a row of \<open>T\<close>
  that no row is nearer than, and the first such row.
\<close>

definition is_nearest :: "descriptor \<Rightarrow> descriptors \<Rightarrow> nat \<Rightarrow> bool" where
  "is_nearest d T j \<longleftrightarrow>
     j < length T \<and>
     (\<forall>k<length T. norm_l2_sq d (T ! j) \<le> norm_l2_sq d (T ! k)) \<and>
     (\<forall>k<j. norm_l2_sq d (T ! j) < norm_l2_sq d (T ! k))"

subsection \<open>The matcher over the distances it computes\<close>

text \<open>
  The library computes the L2 norm in single-precision floating point, and two
  distances that differ in exact arithmetic can come out equal. The definitions below
  are those of the matcher above with the computed distance \<open>dist\<close> as a parameter, of
  any linearly ordered type; \<open>BFMatcher_match\<close> is the instance at \<open>norm_l2_sq\<close>.
\<close>







section \<open>Concrete inputs\<close>

text \<open>
  A concrete library and a concrete world, used where a property is evaluated on an
  explicit input. \<open>stub_cv2\<close> behaves as \<^verbatim>\<open>cv2\<close> does on the points that matter to the
  function: \<^verbatim>\<open>imread\<close> returns \<^verbatim>\<open>None\<close> (it does not raise) where there is no
  readable file, and a frame otherwise; the detector returns one one-dimensional
  descriptor per pixel; the matcher raises on \<^verbatim>\<open>None\<close> and otherwise pairs the rows
  by position.
\<close>

definition stub_cv2 :: cv2 where
  "stub_cv2 =
     \<lparr>imread = (\<lambda>fname content.
         Inr (map_option (\<lambda>c. \<lparr>height = 1, width = length c, pixels = map of_char c\<rparr>) content)),
      detectAndCompute = (\<lambda>frame. Inr (Some (map (\<lambda>p. [int p]) (pixels frame)))),
      bf_match = (\<lambda>D_src D.
         case (D_src, D) of
           (Some q, Some t) \<Rightarrow> Inr (zip [0..<length q] [0..<length t])
         | _ \<Rightarrow> Inl ''cv2.error'')\<rparr>"

definition example_world :: world where
  "example_world =
     \<lparr>files = [''a.png'' \<mapsto> ''xy''],
      opened = [],
      stdout = [],
      arrays = (\<lambda>_. None)(Caller 0 := Some [[1], [2], [3]])\<rparr>"


text \<open>The same library with the modelled matcher in the place of the positional one.\<close>

definition model_cv2 :: cv2 where
  "model_cv2 = stub_cv2\<lparr>bf_match := BFMatcher_match\<rparr>"

section \<open>Properties of the descriptor-and-match function\<close>

lemma example_world_fields:
  "opened example_world = []"
  "stdout example_world = []"
  "files example_world ''a.png'' = Some ''xy''"
  "files example_world ''missing.png'' = None"
  "arrays example_world (Caller 0) = Some [[1], [2], [3]]"
  "arrays example_world (Caller 1) = None"
  by (simp_all add: example_world_def)

lemma stub_imread_a:
  "imread stub_cv2 ''a.png'' (Some ''xy'') =
     Inr (Some \<lparr>height = 1, width = 2, pixels = [120, 121]\<rparr>)"
  by (simp add: stub_cv2_def)

lemma stub_imread_missing:
  "imread stub_cv2 ''missing.png'' None = Inr None"
  by (simp add: stub_cv2_def)

lemma stub_detect_a:
  "detectAndCompute stub_cv2 \<lparr>height = 1, width = 2, pixels = [120, 121]\<rparr> =
     Inr (Some [[120], [121]])"
  by (simp add: stub_cv2_def)

lemma stub_match_a:
  "bf_match stub_cv2 (Some [[1], [2], [3]]) (Some [[120], [121]]) = Inr [(0, 0), (1, 1)]"
  "bf_match stub_cv2 None (Some [[120], [121]]) = Inl ''cv2.error''"
  by (simp_all add: stub_cv2_def upt_rec)

text \<open>
  C1, amended: for every argument pair for which \<^verbatim>\<open>imread\<close> returns a frame and the
  detector and the matcher succeed, \<open>get_num_matches\<close> reads the file at the given path,
  computes the descriptors of that frame, matches the reference array against them, and
  returns the pair of the input path and the number of matches. For every other
  argument pair it returns no pair. The path it read is the one it was given.
\<close>

theorem get_num_matches_returns:
  "(fst (get_num_matches cv (fname, D_src) w) = Inr (p, n) \<longleftrightarrow>
     (\<exists>frame D matches.
        imread cv fname (files w fname) = Inr (Some frame) \<and>
        detectAndCompute cv frame = Inr D \<and>
        bf_match cv (arrays w (Caller D_src)) D = Inr matches \<and>
        p = fname \<and> n = int (length matches))) \<and>
   opened (snd (get_num_matches cv (fname, D_src) w)) = opened w @ [fname]"
  by (auto simp: get_num_matches_def Let_def split: sum.splits option.splits)

theorem get_num_matches_returns_witness:
  "fst (get_num_matches stub_cv2 (''a.png'', 0) example_world) = Inr (''a.png'', 2)"
proof -
  let ?frame = "\<lparr>height = 1, width = 2, pixels = [120, 121]\<rparr>"
  have 1: "imread stub_cv2 ''a.png'' (files example_world ''a.png'') = Inr (Some ?frame)"
    by (simp only: example_world_fields stub_imread_a)
  have 2: "detectAndCompute stub_cv2 ?frame = Inr (Some [[120], [121]])"
    by (rule stub_detect_a)
  have 3: "bf_match stub_cv2 (arrays example_world (Caller 0)) (Some [[120], [121]]) =
             Inr [(0, 0), (1, 1)]"
    by (simp only: example_world_fields stub_match_a)
  have 4: "(2::int) = int (length [(0::nat, 0::nat), (1, 1)])"
    by simp
  from 1 2 3 4 show ?thesis
    using get_num_matches_returns [of stub_cv2 "''a.png''" 0 example_world "''a.png''" 2]
    by blast
qed

lemma stub_run_a:
  "get_num_matches stub_cv2 (''a.png'', 0) example_world =
     (Inr (''a.png'', 2),
      example_world
        \<lparr>opened := [''a.png''],
         stdout := [(1, 2)],
         arrays := (arrays example_world)(Local_D := Some [[120], [121]])\<rparr>)"
  by (simp add: get_num_matches_def stub_cv2_def example_world_def shape_def upt_rec)

lemma stub_run_missing:
  "get_num_matches stub_cv2 (''missing.png'', 0) example_world =
     (Inl AttributeError, example_world\<lparr>opened := [''missing.png'']\<rparr>)"
  by (simp add: get_num_matches_def stub_cv2_def example_world_def)

text \<open>
  C1, as stated, fails: not every argument pair gives a pair back. For a path with no
  readable file the call raises and returns nothing.
\<close>

theorem get_num_matches_no_pair_counterexample:
  "fst (get_num_matches stub_cv2 (''missing.png'', 0) example_world) = Inl AttributeError"
  by (simp add: stub_run_missing)

text \<open>
  C2, as stated, fails: a call that reads its image prints the frame's shape on
  standard output (\<^verbatim>\<open>print frame.shape\<close>).
\<close>

theorem get_num_matches_prints_counterexample:
  "stdout example_world = [] \<and>
   stdout (snd (get_num_matches stub_cv2 (''a.png'', 0) example_world)) = [(1, 2)]"
  by (simp add: stub_run_a example_world_fields)

text \<open>
  C2, amended: a call's only effects are the read of the file at the given path and, when
  \<^verbatim>\<open>imread\<close> returned a frame, one line on standard output holding that frame's
  shape. The file system is unchanged, every array object of the caller is unchanged, and
  nothing else is printed.
\<close>

theorem get_num_matches_effects:
  "get_num_matches cv (fname, D_src) w = (r, w') \<Longrightarrow>
     files w' = files w \<and>
     opened w' = opened w @ [fname] \<and>
     (\<forall>k. arrays w' (Caller k) = arrays w (Caller k)) \<and>
     stdout w' = stdout w @
       (case imread cv fname (files w fname) of
          Inr (Some frame) \<Rightarrow> [shape frame]
        | _ \<Rightarrow> [])"
  by (auto simp: get_num_matches_def Let_def split: sum.splits option.splits)

theorem get_num_matches_effects_witness:
  "files (snd (get_num_matches stub_cv2 (''a.png'', 0) example_world)) = files example_world \<and>
   opened (snd (get_num_matches stub_cv2 (''a.png'', 0) example_world)) = [''a.png''] \<and>
   stdout (snd (get_num_matches stub_cv2 (''a.png'', 0) example_world)) = [(1, 2)]"
  using get_num_matches_effects [OF surjective_pairing, of stub_cv2 "''a.png''" 0 example_world]
  unfolding example_world_fields stub_imread_a sum.case option.case
  by (simp add: shape_def)

text \<open>
  C3, as stated, fails: where \<^verbatim>\<open>imread\<close> returns \<^verbatim>\<open>None\<close> for a path it cannot
  read, no library call raises; the exception is the \<^verbatim>\<open>AttributeError\<close> of the
  function's own \<^verbatim>\<open>frame.shape\<close>.
\<close>

theorem get_num_matches_unreadable_counterexample:
  "files example_world ''missing.png'' = None \<and>
   fst (get_num_matches stub_cv2 (''missing.png'', 0) example_world) = Inl AttributeError"
  by (simp add: stub_run_missing example_world_fields)

text \<open>
  C3, amended: a call fails in exactly four ways. An exception raised by \<^verbatim>\<open>imread\<close>,
  by the detector or by the matcher (the last one covers a malformed reference array)
  is propagated unchanged; and where \<^verbatim>\<open>imread\<close> returns \<^verbatim>\<open>None\<close> the call fails
  with the \<^verbatim>\<open>AttributeError\<close> of \<^verbatim>\<open>frame.shape\<close>. There is no recovery and no
  validation (a library exception is never turned into a result or into another
  exception) and no retry (the file is read once).
\<close>

theorem get_num_matches_fails:
  "(fst (get_num_matches cv (fname, D_src) w) = Inl x \<longleftrightarrow>
      (\<exists>e. imread cv fname (files w fname) = Inl e \<and> x = Library e) \<or>
      (imread cv fname (files w fname) = Inr None \<and> x = AttributeError) \<or>
      (\<exists>frame e. imread cv fname (files w fname) = Inr (Some frame) \<and>
         detectAndCompute cv frame = Inl e \<and> x = Library e) \<or>
      (\<exists>frame D e. imread cv fname (files w fname) = Inr (Some frame) \<and>
         detectAndCompute cv frame = Inr D \<and>
         bf_match cv (arrays w (Caller D_src)) D = Inl e \<and> x = Library e)) \<and>
   opened (snd (get_num_matches cv (fname, D_src) w)) = opened w @ [fname]"
  by (auto simp: get_num_matches_def Let_def split: sum.splits option.splits)

text \<open>
  A malformed reference array: the caller's object 1 of \<open>example_world\<close> is not an
  array, and the matcher of \<open>stub_cv2\<close> raises on it.
\<close>

theorem get_num_matches_fails_witness:
  "fst (get_num_matches stub_cv2 (''a.png'', 1) example_world) = Inl (Library ''cv2.error'')"
proof -
  let ?frame = "\<lparr>height = 1, width = 2, pixels = [120, 121]\<rparr>"
  have 1: "imread stub_cv2 ''a.png'' (files example_world ''a.png'') = Inr (Some ?frame)"
    by (simp only: example_world_fields stub_imread_a)
  have 2: "detectAndCompute stub_cv2 ?frame = Inr (Some [[120], [121]])"
    by (rule stub_detect_a)
  have 3: "bf_match stub_cv2 (arrays example_world (Caller 1)) (Some [[120], [121]]) =
             Inl ''cv2.error''"
    by (simp only: example_world_fields stub_match_a)
  from 1 2 3 show ?thesis
    using get_num_matches_fails
      [of stub_cv2 "''a.png''" 1 example_world "Library ''cv2.error''"]
    by blast
qed

text \<open>
  C8: a call leaves the reference array it was given, and every other array object of
  the caller, as it was; and the array that the detector created holds, when the call
  ends, exactly what the detector returned.
\<close>

theorem get_num_matches_arrays_unchanged:
  "get_num_matches cv (fname, D_src) w = (r, w') \<Longrightarrow>
     arrays w' (Caller D_src) = arrays w (Caller D_src) \<and>
     (\<forall>k. arrays w' (Caller k) = arrays w (Caller k)) \<and>
     (case imread cv fname (files w fname) of
        Inr (Some frame) \<Rightarrow>
          (case detectAndCompute cv frame of
             Inr D \<Rightarrow> arrays w' Local_D = D
           | Inl e \<Rightarrow> arrays w' Local_D = arrays w Local_D)
      | _ \<Rightarrow> arrays w' Local_D = arrays w Local_D)"
  by (auto simp: get_num_matches_def Let_def split: sum.splits option.splits)

theorem get_num_matches_arrays_unchanged_witness:
  "arrays (snd (get_num_matches stub_cv2 (''a.png'', 0) example_world)) (Caller 0) =
     Some [[1], [2], [3]] \<and>
   arrays (snd (get_num_matches stub_cv2 (''a.png'', 0) example_world)) Local_D =
     Some [[120], [121]]"
  using get_num_matches_arrays_unchanged
    [OF surjective_pairing, of stub_cv2 "''a.png''" 0 example_world]
  unfolding example_world_fields stub_imread_a sum.case option.case stub_detect_a
  by (simp add: example_world_fields)

section \<open>Properties of the parallel submission\<close>

lemma collect_results_prefix:
  "collect_results (map Inr rs @ rest) nb =
     collect_results rest (nb\<lparr>printed := printed nb @ rs\<rparr>)"
proof (induction rs arbitrary: nb)
  case Nil
  show ?case by simp
next
  case (Cons r rs)
  obtain f n where r: "r = (f, n)"
    by (cases r)
  show ?case
    by (simp add: r Cons.IH)
qed

text \<open>
  C4: the argument list holds one work unit per file name, in the order of the file
  names: the unit at position \<open>i\<close> is the pair of the \<open>i\<close>-th path and the one reference
  array \<open>D_1\<close>. The submission makes one map call, on that whole list, and hands back the
  result object the call returned. Iterating a result object whose items are all
  results prints each (path, count) pair, in the order the object yields them.
\<close>

theorem submit_one_unit_per_file:
  "length (args fnames D_1) = length fnames \<and>
   map fst (args fnames D_1) = fnames \<and>
   (\<forall>i<length fnames. args fnames D_1 ! i = (fnames ! i, D_1)) \<and>
   map_calls (snd (submit pmap fnames D_1 nb)) = map_calls nb @ [args fnames D_1] \<and>
   printed (snd (submit pmap fnames D_1 nb)) = printed nb \<and>
   (pmap (args fnames D_1) = Inr async_res \<longrightarrow>
      fst (submit pmap fnames D_1 nb) = Inr async_res) \<and>
   collect_results (map Inr rs) nb = (Inr (), nb\<lparr>printed := printed nb @ rs\<rparr>)"
proof -
  have "collect_results (map Inr rs @ []) nb = (Inr (), nb\<lparr>printed := printed nb @ rs\<rparr>)"
    by (simp only: collect_results_prefix collect_results.simps)
  then show ?thesis
    by (simp add: args_def submit_def Let_def comp_def split: sum.splits)
qed

theorem submit_one_unit_per_file_witness:
  "args [''t1.png'', ''t2.png''] 0 = [(''t1.png'', 0), (''t2.png'', 0)] \<and>
   submit (\<lambda>a. Inr (map (\<lambda>(f, d). Inr (f, 7)) a)) [''t1.png'', ''t2.png''] 0
       \<lparr>map_calls = [], printed = []\<rparr> =
     (Inr [Inr (''t1.png'', 7), Inr (''t2.png'', 7)],
      \<lparr>map_calls = [[(''t1.png'', 0), (''t2.png'', 0)]], printed = []\<rparr>) \<and>
   collect_results (map Inr [(''t1.png'', 7), (''t2.png'', 7)]) \<lparr>map_calls = [], printed = []\<rparr> =
     (Inr (), \<lparr>map_calls = [], printed = [(''t1.png'', 7), (''t2.png'', 7)]\<rparr>)"
proof -
  let ?pmap = "\<lambda>a. Inr (map (\<lambda>(f, d). Inr (f, 7)) a) :: string + async_result"
  let ?nb = "\<lparr>map_calls = [], printed = []\<rparr>"
  have a: "args [''t1.png'', ''t2.png''] 0 = [(''t1.png'', 0), (''t2.png'', 0)]"
    by (simp add: args_def)
  have p: "?pmap (args [''t1.png'', ''t2.png''] 0) =
             Inr [Inr (''t1.png'', 7), Inr (''t2.png'', 7)]"
    by (simp add: a)
  note t = submit_one_unit_per_file
    [of "[''t1.png'', ''t2.png'']" 0 ?pmap ?nb "[Inr (''t1.png'', 7), Inr (''t2.png'', 7)]"
        "[(''t1.png'', 7), (''t2.png'', 7)]"]
  from t p have
    "fst (submit ?pmap [''t1.png'', ''t2.png''] 0 ?nb) =
       Inr [Inr (''t1.png'', 7), Inr (''t2.png'', 7)]"
    "map_calls (snd (submit ?pmap [''t1.png'', ''t2.png''] 0 ?nb)) =
       [[(''t1.png'', 0), (''t2.png'', 0)]]"
    "printed (snd (submit ?pmap [''t1.png'', ''t2.png''] 0 ?nb)) = []"
    "collect_results (map Inr [(''t1.png'', 7), (''t2.png'', 7)]) ?nb =
       (Inr (), \<lparr>map_calls = [], printed = [(''t1.png'', 7), (''t2.png'', 7)]\<rparr>)"
    by (simp_all add: a)
  then show ?thesis
    using a by (simp add: prod_eq_iff notebook.equality)
qed

text \<open>
  C7: the submission has no error handling. An exception raised by the map call is the
  outcome of the submission, unchanged, after exactly one call (no retry); and when the
  iteration of the result object raises, the loop ends with that exception, unchanged,
  having printed the pairs yielded before it and nothing after.
\<close>

theorem submit_propagates_exceptions:
  "(pmap (args fnames D_1) = Inl e \<longrightarrow>
      fst (submit pmap fnames D_1 nb) = Inl (Library e) \<and>
      map_calls (snd (submit pmap fnames D_1 nb)) = map_calls nb @ [args fnames D_1]) \<and>
   collect_results (map Inr rs @ Inl e # rest) nb =
     (Inl (Library e), nb\<lparr>printed := printed nb @ rs\<rparr>)"
  by (simp add: submit_def Let_def collect_results_prefix)

theorem submit_propagates_exceptions_witness:
  "fst (submit (\<lambda>a. Inl ''BadYieldError'') [''t1.png'', ''t2.png''] 0
          \<lparr>map_calls = [], printed = []\<rparr>) = Inl (Library ''BadYieldError'') \<and>
   map_calls (snd (submit (\<lambda>a. Inl ''BadYieldError'') [''t1.png'', ''t2.png''] 0
          \<lparr>map_calls = [], printed = []\<rparr>)) = [[(''t1.png'', 0), (''t2.png'', 0)]] \<and>
   collect_results [Inr (''t1.png'', 7), Inl ''RemoteError'', Inr (''t2.png'', 7)]
       \<lparr>map_calls = [], printed = []\<rparr> =
     (Inl (Library ''RemoteError''), \<lparr>map_calls = [], printed = [(''t1.png'', 7)]\<rparr>)"
  using submit_propagates_exceptions
    [of "\<lambda>a. Inl ''BadYieldError''" "[''t1.png'', ''t2.png'']" 0 "''BadYieldError''"
        "\<lparr>map_calls = [], printed = []\<rparr>" "[(''t1.png'', 7)]" "[Inr (''t2.png'', 7)]"]
    submit_propagates_exceptions
    [of "\<lambda>a. Inl ''BadYieldError''" "[''t1.png'', ''t2.png'']" 0 "''RemoteError''"
        "\<lparr>map_calls = [], printed = []\<rparr>" "[(''t1.png'', 7)]" "[Inr (''t2.png'', 7)]"]
  by (simp add: args_def)

section \<open>Properties of the matcher\<close>

lemma argmin_None: "argmin ds = None \<longleftrightarrow> ds = []"
  by (cases ds) (auto split: option.splits)

lemma argmin_SomeD:
  "argmin ds = Some j \<Longrightarrow>
     j < length ds \<and> (\<forall>k<length ds. ds ! j \<le> ds ! k) \<and> (\<forall>k<j. ds ! j < ds ! k)"
proof (induction ds arbitrary: j)
  case Nil
  then show ?case by simp
next
  case (Cons x xs)
  show ?case
  proof (cases "argmin xs")
    case None
    then have "xs = []" by (simp add: argmin_None)
    with Cons.prems show ?thesis by simp
  next
    case (Some m)
    note IH = Cons.IH [OF Some]
    show ?thesis
    proof (cases "x \<le> xs ! m")
      case True
      with Some Cons.prems have j: "j = 0" by simp
      have "\<forall>k<length (x # xs). (x # xs) ! 0 \<le> (x # xs) ! k"
      proof (intro allI impI)
        fix k assume "k < length (x # xs)"
        then show "(x # xs) ! 0 \<le> (x # xs) ! k"
          using IH True by (cases k) (auto intro: order_trans)
      qed
      with j show ?thesis by simp
    next
      case False
      with Some Cons.prems have j: "j = Suc m" by simp
      have a: "\<forall>k<length (x # xs). (x # xs) ! Suc m \<le> (x # xs) ! k"
      proof (intro allI impI)
        fix k assume "k < length (x # xs)"
        then show "(x # xs) ! Suc m \<le> (x # xs) ! k"
          using IH False by (cases k) auto
      qed
      have b: "\<forall>k<Suc m. (x # xs) ! Suc m < (x # xs) ! k"
      proof (intro allI impI)
        fix k assume "k < Suc m"
        then show "(x # xs) ! Suc m < (x # xs) ! k"
          using IH False by (cases k) auto
      qed
      from a b j IH show ?thesis by simp
    qed
  qed
qed

lemma first_min_unique:
  fixes ds :: "'a::linorder list"
  assumes "j < length ds" "\<forall>k<length ds. ds ! j \<le> ds ! k" "\<forall>k<j. ds ! j < ds ! k"
    and "i < length ds" "\<forall>k<length ds. ds ! i \<le> ds ! k" "\<forall>k<i. ds ! i < ds ! k"
  shows "i = j"
proof (rule ccontr)
  assume "i \<noteq> j"
  then consider "i < j" | "j < i" by linarith
  then show False
  proof cases
    case 1
    with assms(3) have "ds ! j < ds ! i" by simp
    moreover from assms(1,5) have "ds ! i \<le> ds ! j" by simp
    ultimately show False by simp
  next
    case 2
    with assms(6) have "ds ! i < ds ! j" by simp
    moreover from assms(4,2) have "ds ! j \<le> ds ! i" by simp
    ultimately show False by simp
  qed
qed

lemma argmin_Some_iff:
  "argmin ds = Some j \<longleftrightarrow>
     j < length ds \<and> (\<forall>k<length ds. ds ! j \<le> ds ! k) \<and> (\<forall>k<j. ds ! j < ds ! k)"
proof
  assume "argmin ds = Some j"
  then show "j < length ds \<and> (\<forall>k<length ds. ds ! j \<le> ds ! k) \<and> (\<forall>k<j. ds ! j < ds ! k)"
    by (rule argmin_SomeD)
next
  assume r: "j < length ds \<and> (\<forall>k<length ds. ds ! j \<le> ds ! k) \<and> (\<forall>k<j. ds ! j < ds ! k)"
  then have "ds \<noteq> []" by auto
  then obtain i where i: "argmin ds = Some i"
    using argmin_None [of ds] by (cases "argmin ds") auto
  from argmin_SomeD [OF i] r have "i = j"
    using first_min_unique [of j ds i] by blast
  with i show "argmin ds = Some j" by simp
qed

lemma nearest_iff: "nearest d T = Some j \<longleftrightarrow> is_nearest d T j"
  unfolding nearest_def is_nearest_def argmin_Some_iff
  by (auto simp: )



lemma map_fst_map_filter_pairs:
  "map fst (List.map_filter
      (\<lambda>i. case g i of None \<Rightarrow> None
            | Some j \<Rightarrow> if h j = Some i then Some (i, j) else None) xs) =
   filter (\<lambda>i. \<exists>j. g i = Some j \<and> h j = Some i) xs"
  by (induction xs) (auto split: option.splits)

lemma set_map_filter_pairs:
  "set (List.map_filter
      (\<lambda>i. case g i of None \<Rightarrow> None
            | Some j \<Rightarrow> if h j = Some i then Some (i, j) else None) xs) =
   {(i, j). i \<in> set xs \<and> g i = Some j \<and> h j = Some i}"
  by (induction xs) (auto split: option.splits)

lemma map_fst_cross_check:
  "map fst (cross_check Q T) =
     filter (\<lambda>i. \<exists>j. nearest (Q ! i) T = Some j \<and> nearest (T ! j) Q = Some i) [0..<length Q]"
  unfolding cross_check_def by (rule map_fst_map_filter_pairs)

lemma set_cross_check:
  "set (cross_check Q T) =
     {(i, j). i < length Q \<and> nearest (Q ! i) T = Some j \<and> nearest (T ! j) Q = Some i}"
  unfolding cross_check_def by (simp add: set_map_filter_pairs)

lemma nearest_less: "nearest d T = Some j \<Longrightarrow> j < length T"
  using argmin_SomeD [of "map (norm_l2_sq d) T" j] by (simp add: nearest_def)

lemma distinct_map_fst_cross_check: "distinct (map fst (cross_check Q T))"
  by (simp add: map_fst_cross_check)

lemma distinct_cross_check: "distinct (cross_check Q T)"
  using distinct_map_fst_cross_check [of Q T] by (simp add: distinct_map)

lemma length_cross_check_query: "length (cross_check Q T) \<le> length Q"
proof -
  have "length (cross_check Q T) = length (map fst (cross_check Q T))"
    by simp
  also have "\<dots> \<le> length [0..<length Q]"
    unfolding map_fst_cross_check by (rule length_filter_le)
  finally show ?thesis by simp
qed

lemma inj_on_snd_cross_check: "inj_on snd (set (cross_check Q T))"
  unfolding set_cross_check by (auto simp: inj_on_def)

lemma length_cross_check_train: "length (cross_check Q T) \<le> length T"
proof -
  have "snd ` set (cross_check Q T) \<subseteq> {..<length T}"
    unfolding set_cross_check by (auto dest: nearest_less)
  then have "card (snd ` set (cross_check Q T)) \<le> card {..<length T}"
    by (intro card_mono) auto
  moreover have "card (snd ` set (cross_check Q T)) = card (set (cross_check Q T))"
    by (rule card_image [OF inj_on_snd_cross_check])
  moreover have "card (set (cross_check Q T)) = length (cross_check Q T)"
    by (rule distinct_card [OF distinct_cross_check])
  ultimately show ?thesis by simp
qed

lemma norm_l2_sq_nonneg: "0 \<le> norm_l2_sq a b"
  unfolding norm_l2_sq_def by (rule sum_list_nonneg) auto

lemma norm_l2_sq_self: "norm_l2_sq a a = 0"
  unfolding norm_l2_sq_def by (induction a) auto

lemma norm_l2_sq_Cons:
  "norm_l2_sq (x # a) (y # b) = (x - y) * (x - y) + norm_l2_sq a b"
  by (simp add: norm_l2_sq_def)

lemma norm_l2_sq_eq_0:
  "length a = length b \<Longrightarrow> norm_l2_sq a b = 0 \<longleftrightarrow> a = b"
proof (induction a b rule: list_induct2)
  case Nil
  show ?case by (simp add: norm_l2_sq_def)
next
  case (Cons x a y b)
  have sq: "0 \<le> (x - y) * (x - y)" by simp
  have nn: "0 \<le> norm_l2_sq a b" by (rule norm_l2_sq_nonneg)
  have "(x - y) * (x - y) + norm_l2_sq a b = 0 \<longleftrightarrow>
          (x - y) * (x - y) = 0 \<and> norm_l2_sq a b = 0"
    using sq nn by linarith
  then show ?case
    by (simp add: norm_l2_sq_Cons Cons.IH)
qed

lemma norm_l2_sq_sym: "norm_l2_sq a b = norm_l2_sq b a"
proof (induction a arbitrary: b)
  case Nil
  show ?case by (simp add: norm_l2_sq_def)
next
  case (Cons x a)
  show ?case
  proof (cases b)
    case Nil
    then show ?thesis by (simp add: norm_l2_sq_def)
  next
    case (Cons y b')
    have "(x - y) * (x - y) = (y - x) * (y - x)"
      by (simp add: algebra_simps)
    then show ?thesis
      using Cons.IH [of b'] by (simp add: Cons norm_l2_sq_Cons)
  qed
qed

lemma nearest_self:
  assumes "distinct D" "same_width D" "i < length D"
  shows "nearest (D ! i) D = Some i"
proof -
  have zero: "norm_l2_sq (D ! i) (D ! i) = 0"
    by (rule norm_l2_sq_self)
  have pos: "0 < norm_l2_sq (D ! i) (D ! k)" if "k < length D" "k \<noteq> i" for k
  proof -
    from assms(1,3) that have "D ! i \<noteq> D ! k"
      by (simp add: nth_eq_iff_index_eq)
    moreover from assms(2,3) that have "length (D ! i) = length (D ! k)"
      by (simp add: same_width_def)
    ultimately have "norm_l2_sq (D ! i) (D ! k) \<noteq> 0"
      by (simp add: norm_l2_sq_eq_0)
    with norm_l2_sq_nonneg [of "D ! i" "D ! k"] show ?thesis by simp
  qed
  have "is_nearest (D ! i) D i"
    unfolding is_nearest_def
  proof (intro conjI allI impI)
    show "i < length D" by (rule assms(3))
  next
    fix k assume "k < length D"
    show "norm_l2_sq (D ! i) (D ! i) \<le> norm_l2_sq (D ! i) (D ! k)"
      by (simp add: zero norm_l2_sq_nonneg)
  next
    fix k assume "k < i"
    with assms(3) pos [of k] show "norm_l2_sq (D ! i) (D ! i) < norm_l2_sq (D ! i) (D ! k)"
      by (simp add: zero)
  qed
  then show ?thesis by (simp add: nearest_iff)
qed

lemma cross_check_self:
  assumes "distinct D" "same_width D"
  shows "cross_check D D = map (\<lambda>i. (i, i)) [0..<length D]"
proof -
  have "List.map_filter
          (\<lambda>i. case nearest (D ! i) D of None \<Rightarrow> None
                | Some j \<Rightarrow> if nearest (D ! j) D = Some i then Some (i, j) else None) xs =
        map (\<lambda>i. (i, i)) xs" if "\<forall>i\<in>set xs. i < length D" for xs
    using that by (induction xs) (simp_all add: nearest_self [OF assms])
  from this [of "[0..<length D]"] show ?thesis
    unfolding cross_check_def by simp
qed


lemma model_cv2_fields:
  "imread model_cv2 = imread stub_cv2"
  "detectAndCompute model_cv2 = detectAndCompute stub_cv2"
  "bf_match model_cv2 = BFMatcher_match"
  by (simp_all add: model_cv2_def)

lemma same_width_self: "same_width (D @ D) = same_width D"
  by (auto simp: same_width_def)

lemma BFMatcher_match_example:
  "BFMatcher_match (Some [[1], [2], [3]]) (Some [[120], [121]]) = Inr [(2, 0)]"
  by code_simp

text \<open>
  C5, as stated, fails on a descriptor array with a repeated row: both query rows have
  train row 0 as their nearest row, and train row 0 has query row 0 as its nearest, so
  the cross-check accepts one match for two descriptors.
\<close>

theorem BFMatcher_match_duplicates_counterexample:
  "BFMatcher_match (Some [[1], [1]]) (Some [[1], [1]]) = Inr [(0, 0)] \<and>
   length [(0::nat, 0::nat)] \<noteq> length [[1::int], [1]]"
  by code_simp

text \<open>
  C5, amended: for every descriptor array whose rows are pairwise distinct (and have
  one common width), matching the array against itself yields one match per descriptor,
  row \<open>i\<close> with row \<open>i\<close>: the match count is the number of descriptors.
\<close>

theorem BFMatcher_match_self:
  "distinct D \<Longrightarrow> same_width D \<Longrightarrow>
     BFMatcher_match (Some D) (Some D) = Inr (map (\<lambda>i. (i, i)) [0..<length D]) \<and>
     length (map (\<lambda>i. (i, i)) [0..<length D]) = length D"
  by (simp add: BFMatcher_match_def same_width_self cross_check_self)

theorem BFMatcher_match_self_witness:
  "BFMatcher_match (Some [[1], [5], [9]]) (Some [[1], [5], [9]]) = Inr [(0, 0), (1, 1), (2, 2)]"
proof -
  have d: "distinct [[1], [5], [9 :: int]]" by simp
  have s: "same_width [[1], [5], [9]]" by (simp add: same_width_def)
  have u: "map (\<lambda>i. (i, i)) [0..<length [[1], [5], [9 :: int]]] = [(0, 0), (1, 1), (2, 2)]"
    by (simp add: upt_rec)
  show ?thesis
    using BFMatcher_match_self [OF d s] by (simp only: u)
qed

lemma BFMatcher_match_InrD:
  "BFMatcher_match D_src D = Inr matches \<Longrightarrow>
     \<exists>Q T. D_src = Some Q \<and> D = Some T \<and> same_width (Q @ T) \<and> matches = cross_check Q T"
  by (auto simp: BFMatcher_match_def split: option.splits if_splits)

lemma get_num_matches_InrD:
  "fst (get_num_matches cv (fname, D_src) w) = Inr (p, n) \<Longrightarrow>
     \<exists>frame D matches.
        imread cv fname (files w fname) = Inr (Some frame) \<and>
        detectAndCompute cv frame = Inr D \<and>
        bf_match cv (arrays w (Caller D_src)) D = Inr matches \<and>
        p = fname \<and> n = int (length matches)"
  by (auto simp: get_num_matches_def Let_def split: sum.splits option.splits)

text \<open>
  C10: with the modelled matcher, whenever \<open>get_num_matches\<close> returns a pair, its
  count is at most the number of rows of the reference array and at most the number of
  descriptors detected in the frame.
\<close>

theorem get_num_matches_count_bounded:
  assumes "bf_match cv = BFMatcher_match"
    and "fst (get_num_matches cv (fname, D_src) w) = Inr (p, n)"
  shows "\<exists>frame Q T.
           imread cv fname (files w fname) = Inr (Some frame) \<and>
           detectAndCompute cv frame = Inr (Some T) \<and>
           arrays w (Caller D_src) = Some Q \<and>
           0 \<le> n \<and> n \<le> int (length Q) \<and> n \<le> int (length T)"
proof -
  from get_num_matches_InrD [OF assms(2)] obtain frame D matches where
    f: "imread cv fname (files w fname) = Inr (Some frame)" and
    d: "detectAndCompute cv frame = Inr D" and
    m: "bf_match cv (arrays w (Caller D_src)) D = Inr matches" and
    n: "n = int (length matches)"
    by blast
  from m assms(1) have "BFMatcher_match (arrays w (Caller D_src)) D = Inr matches"
    by simp
  from BFMatcher_match_InrD [OF this] obtain Q T where
    qt: "arrays w (Caller D_src) = Some Q" "D = Some T" "matches = cross_check Q T"
    by blast
  have "length matches \<le> length Q" "length matches \<le> length T"
    unfolding qt(3) by (rule length_cross_check_query, rule length_cross_check_train)
  with f d qt n show ?thesis by simp
qed

lemma model_run_a:
  "fst (get_num_matches model_cv2 (''a.png'', 0) example_world) = Inr (''a.png'', 1)"
  by (simp add: get_num_matches_def model_cv2_def stub_cv2_def example_world_def shape_def
      BFMatcher_match_example)

theorem get_num_matches_count_bounded_witness:
  "fst (get_num_matches model_cv2 (''a.png'', 0) example_world) = Inr (''a.png'', 1) \<and>
   (1::int) \<le> int (length [[1::int], [2], [3]]) \<and> (1::int) \<le> int (length [[120::int], [121]])"
proof -
  have b: "bf_match model_cv2 = BFMatcher_match"
    by (rule model_cv2_fields)
  from get_num_matches_count_bounded [OF b model_run_a] obtain frame Q T where
    "imread model_cv2 ''a.png'' (files example_world ''a.png'') = Inr (Some frame)"
    "detectAndCompute model_cv2 frame = Inr (Some T)"
    "arrays example_world (Caller 0) = Some Q"
    "1 \<le> int (length Q)" "1 \<le> int (length T)"
    by blast
  moreover have "imread model_cv2 ''a.png'' (files example_world ''a.png'') =
      Inr (Some \<lparr>height = 1, width = 2, pixels = [120, 121]\<rparr>)"
    by (simp only: model_cv2_fields example_world_fields stub_imread_a)
  moreover have "detectAndCompute model_cv2 \<lparr>height = 1, width = 2, pixels = [120, 121]\<rparr> =
      Inr (Some [[120], [121]])"
    by (simp only: model_cv2_fields stub_detect_a)
  ultimately have "Q = [[1], [2], [3]]" "T = [[120], [121]]"
    "1 \<le> int (length Q)" "1 \<le> int (length T)"
    by (simp_all add: example_world_fields)
  then show ?thesis
    using model_run_a by simp
qed

subsection \<open>The count and the mutual nearest-neighbour pairs\<close>
















end
